theory Spec2Isabelle
  imports Complex_Main
begin

section \<open>Python values, exceptions and numeric helpers\<close>

text \<open>
  The scorer is called with dynamically typed arguments.  A value is \<open>None\<close>, a float,
  an \<open>int\<close> or a string.  A finite float (Python's \<open>float\<close>, NumPy's \<open>float64\<close>) is
  idealised as a real number, \<open>PyNum\<close>: every arithmetic step on finite numbers is exact
  here.  The floats that are not finite are values of their own, and so are the
  unbounded integers, which \<open>float\<close> cannot always convert.
\<close>

datatype pyval = PyNone | PyNum real | PyInt int | PyInf | PyNegInf | PyNaN | PyStr string

text \<open>A float as \<open>float(x)\<close> returns it: a finite number, an infinity or NaN.\<close>

datatype fval = is_Fin: Fin (un_Fin: real) | PosInf | NegInf | NaN

datatype py_error =
    TypeError | ValueError | AttributeError | IndexError | KeyError
  | FileNotFoundError | RuntimeError | ParserError | OverflowError

text \<open>Truthiness, and \<open>x or d\<close>: the left operand unless it is falsy.\<close>

fun truthy :: "pyval \<Rightarrow> bool" where
  "truthy PyNone = False"
| "truthy (PyNum r) = (r \<noteq> 0)"
| "truthy (PyInt n) = (n \<noteq> 0)"
| "truthy PyInf = True"
| "truthy PyNegInf = True"
| "truthy PyNaN = True"
| "truthy (PyStr s) = (s \<noteq> [])"

definition py_or :: "pyval \<Rightarrow> pyval \<Rightarrow> pyval" where
  "py_or x d = (if truthy x then x else d)"

text \<open>
  \<open>str.strip()\<close> and \<open>str.lower()\<close> on ASCII text.  The whitespace characters are the
  ASCII ones for which \<open>str.isspace\<close> holds: codes 9 to 13, 28 to 31 and 32.
\<close>

definition is_space :: "char \<Rightarrow> bool" where
  "is_space c = (let n = (of_char c :: nat) in (9 \<le> n \<and> n \<le> 13) \<or> (28 \<le> n \<and> n \<le> 32))"

definition strip :: "string \<Rightarrow> string" where
  "strip s = rev (dropWhile is_space (rev (dropWhile is_space s)))"

definition lower_char :: "char \<Rightarrow> char" where
  "lower_char c = (let n = (of_char c :: nat) in if 65 \<le> n \<and> n \<le> 90 then char_of (n + 32) else c)"

definition lower :: "string \<Rightarrow> string" where
  "lower s = map lower_char s"

text \<open>
  \<open>float(s)\<close> for a string.  Surrounding whitespace is stripped and an optional sign is
  read.  What follows is \<open>inf\<close>, \<open>infinity\<close> or \<open>nan\<close> in any case, or a decimal number:
  digits with an optional fractional part (one of the two may be missing) and an
  optional exponent.  Digits may be grouped by single underscores.  Any other text
  raises \<open>ValueError\<close>.
\<close>

definition is_digit :: "char \<Rightarrow> bool" where
  "is_digit c = (let n = (of_char c :: nat) in 48 \<le> n \<and> n \<le> 57)"

definition digit_val :: "char \<Rightarrow> nat" where
  "digit_val c = of_char c - 48"

definition digits_nat :: "string \<Rightarrow> nat" where
  "digits_nat ds = foldl (\<lambda>acc c. 10 * acc + digit_val c) 0 ds"

text \<open>A digit part: a digit, then digits each preceded by at most one underscore.\<close>

fun digitpart :: "string \<Rightarrow> bool" where
  "digitpart [] = False"
| "digitpart [c] = is_digit c"
| "digitpart (c # d # r) =
     (is_digit c \<and> (if d = CHR ''_'' then digitpart r else digitpart (d # r)))"

definition in_digitpart :: "char \<Rightarrow> bool" where
  "in_digitpart c = (is_digit c \<or> c = CHR ''_'')"

definition parse_sign :: "string \<Rightarrow> bool \<times> string" where
  "parse_sign s = (case s of
       c # r \<Rightarrow> if c = CHR ''-'' then (True, r) else if c = CHR ''+'' then (False, r) else (False, s)
     | [] \<Rightarrow> (False, s))"

definition parse_exponent :: "string \<Rightarrow> int option" where
  "parse_exponent s = (case s of
       [] \<Rightarrow> Some 0
     | c # r \<Rightarrow>
         if c = CHR ''e'' \<or> c = CHR ''E'' then
           (let (neg, ds) = parse_sign r in
            if digitpart ds
            then Some (if neg then - int (digits_nat (filter is_digit ds))
                       else int (digits_nat (filter is_digit ds)))
            else None)
         else None)"

definition scale10 :: "real \<Rightarrow> int \<Rightarrow> real" where
  "scale10 m e = (if 0 \<le> e then m * 10 ^ nat e else m / 10 ^ nat (- e))"

definition decimal_of_str :: "string \<Rightarrow> real option" where
  "decimal_of_str body =
     (let ip = takeWhile in_digitpart body;
          r1 = dropWhile in_digitpart body;
          (fp, r2) = (case r1 of
                        c # r \<Rightarrow> if c = CHR ''.''
                                 then (takeWhile in_digitpart r, dropWhile in_digitpart r)
                                 else ([], r1)
                      | [] \<Rightarrow> ([], r1))
      in if ip = [] \<and> fp = [] then None
         else if ip \<noteq> [] \<and> \<not> digitpart ip then None
         else if fp \<noteq> [] \<and> \<not> digitpart fp then None
         else (case parse_exponent r2 of
                 None \<Rightarrow> None
               | Some e \<Rightarrow>
                   (let ids = filter is_digit ip;
                        fds = filter is_digit fp;
                        m = real (digits_nat ids) + real (digits_nat fds) / 10 ^ length fds
                    in Some (scale10 m e))))"

definition float_of_str :: "string \<Rightarrow> fval option" where
  "float_of_str s =
     (let (neg, body) = parse_sign (strip s) in
      if lower body = ''inf'' \<or> lower body = ''infinity'' then Some (if neg then NegInf else PosInf)
      else if lower body = ''nan'' then Some NaN
      else (case decimal_of_str body of
              None \<Rightarrow> None
            | Some v \<Rightarrow> Some (Fin (if neg then - v else v))))"

text \<open>
  \<open>float(x)\<close>: \<open>None\<close> raises \<open>TypeError\<close>, unreadable text raises \<open>ValueError\<close>, and
  an \<open>int\<close> that rounds beyond the largest double raises \<open>OverflowError\<close>; that is every
  \<open>int\<close> of magnitude at least \<open>2^1024 - 2^970\<close>, halfway between the largest double and
  \<open>2^1024\<close>.
\<close>

definition float_int_limit :: int where
  "float_int_limit = 2 ^ 1024 - 2 ^ 970"

fun py_float :: "pyval \<Rightarrow> py_error + fval" where
  "py_float PyNone = Inl TypeError"
| "py_float (PyNum r) = Inr (Fin r)"
| "py_float (PyInt n) =
     (if \<bar>n\<bar> < float_int_limit then Inr (Fin (of_int n)) else Inl OverflowError)"
| "py_float PyInf = Inr PosInf"
| "py_float PyNegInf = Inr NegInf"
| "py_float PyNaN = Inr NaN"
| "py_float (PyStr s) = (case float_of_str s of None \<Rightarrow> Inl ValueError | Some x \<Rightarrow> Inr x)"

text \<open>
  What a call of the scorer or of the prescription engine can end in besides a result
  of finite numbers: an exception, or a result in which NaN or an infinity stands.  The
  source raises nothing in the second case (NumPy and the comparisons carry such values
  through); the numbers of such a result are not computed here.
\<close>

datatype other_outcome = Raises py_error | NonFinite

text \<open>\<open>np.clip(x, lo, hi)\<close> is \<open>minimum(maximum(x, lo), hi)\<close>.\<close>

definition clip :: "real \<Rightarrow> real \<Rightarrow> real \<Rightarrow> real" where
  "clip x lo hi = min (max x lo) hi"

text \<open>
  \<open>round(x, 2)\<close>: both Python's \<open>float.__round__\<close> and NumPy's round to the nearest
  multiple of 0.01 and send a tie to the even neighbour.
\<close>

definition rint :: "real \<Rightarrow> int" where
  "rint x = (let f = \<lfloor>x\<rfloor>; d = x - of_int f in
             if d < 1 / 2 then f
             else if 1 / 2 < d then f + 1
             else if even f then f else f + 1)"

definition round2 :: "real \<Rightarrow> real" where
  "round2 x = of_int (rint (x * 100)) / 100"

section \<open>The composite risk scorer (risk_analysis.py)\<close>

record weights =
  w_market :: real
  w_sentiment :: real
  w_price :: real

record risk_debug =
  dbg_market_risk_score :: real
  dbg_market_risk_level :: nat
  dbg_sentiment_label :: pyval
  dbg_sentiment_score :: real
  dbg_sentiment_numeric_risk :: real
  dbg_sentiment_risk_level :: nat
  dbg_price_risk_score :: real
  dbg_weights :: weights
  dbg_final_raw :: real

record risk_assessment =
  score :: real
  level :: string
  category :: string
  message :: string
  debug :: risk_debug

text \<open>
  \<open>(sentiment_label or "Neutral").strip().lower()\<close>: a truthy value that is not a string
  has no \<open>strip\<close> method.
\<close>

definition sent_of :: "pyval \<Rightarrow> py_error + string" where
  "sent_of sentiment_label =
     (case py_or sentiment_label (PyStr ''Neutral'') of
        PyStr s \<Rightarrow> Inr (lower (strip s))
      | _ \<Rightarrow> Inl AttributeError)"

text \<open>
  The price is the one input read under \<open>try\<close>: \<open>float(current_price or 0.0)\<close>, and
  0.0 when that raises.
\<close>

definition price_of :: "pyval \<Rightarrow> fval" where
  "price_of current_price =
     (case py_float (py_or current_price (PyNum 0)) of Inl e \<Rightarrow> Fin 0 | Inr x \<Rightarrow> x)"

definition risk_level_of :: "real \<Rightarrow> nat" where
  "risk_level_of s = (if s < 30 then 1 else if s < 60 then 2 else 3)"

definition sentiment_level_of :: "string \<Rightarrow> real \<Rightarrow> nat" where
  "sentiment_level_of sent s_score =
     (if sent = ''positive'' \<and> 60 \<le> s_score then 1
      else if sent = ''negative'' \<or> s_score < 40 then 3
      else 2)"

text \<open>The three sub-scores, each computed from the coerced numbers as the source does.\<close>

definition market_risk_score_of :: "real \<Rightarrow> real \<Rightarrow> real \<Rightarrow> real" where
  "market_risk_score_of g v lf =
     (let gr_pct = g * 100;
          vol_pct = v * 100;
          market_component = vol_pct * 1.5 - gr_pct * 0.8;
          adjusted_market = market_component * (1.2 - lf)
      in clip adjusted_market 0 100)"

definition sentiment_numeric_risk_of :: "real \<Rightarrow> real" where
  "sentiment_numeric_risk_of s_score = clip (100 - s_score) 0 100"

definition price_risk_score_of :: "real \<Rightarrow> real" where
  "price_risk_score_of cp = clip (cp / 200 * 100) 0 100"

definition W_MARKET :: real where "W_MARKET = 0.70"
definition W_SENTIMENT :: real where "W_SENTIMENT = 0.20"
definition W_PRICE :: real where "W_PRICE = 0.10"

definition final_numeric_raw_of :: "real \<Rightarrow> real \<Rightarrow> real \<Rightarrow> real" where
  "final_numeric_raw_of market_risk_score sentiment_numeric_risk price_risk_score =
     market_risk_score * W_MARKET + sentiment_numeric_risk * W_SENTIMENT
       + price_risk_score * W_PRICE"

definition final_numeric_score_of :: "real \<Rightarrow> real" where
  "final_numeric_score_of final_numeric_raw = clip (round2 final_numeric_raw) 0 100"

text \<open>The final tier, with its category and message, and the assembled result.\<close>

definition tier_of :: "real \<Rightarrow> string \<times> string \<times> string" where
  "tier_of final_numeric_score =
     (if final_numeric_score < 30 then
        (''Low'', ''Stable Market'',
         ''Strong signals with low volatility. Good investment conditions.'')
      else if final_numeric_score < 60 then
        (''Moderate'', ''Caution Advised'',
         ''Some mixed signals. Consider cautious investment.'')
      else
        (''High'', ''High Risk'',
         ''Negative sentiment or high volatility. Avoid large investments.''))"

definition assess ::
  "real \<Rightarrow> real \<Rightarrow> real \<Rightarrow> real \<Rightarrow> pyval \<Rightarrow> string \<Rightarrow> real \<Rightarrow> risk_assessment" where
  "assess cp g v lf sentiment_label sent s_score =
     (let market_risk_score = market_risk_score_of g v lf;
          sentiment_numeric_risk = sentiment_numeric_risk_of s_score;
          price_risk_score = price_risk_score_of cp;
          final_numeric_raw =
            final_numeric_raw_of market_risk_score sentiment_numeric_risk price_risk_score;
          final_numeric_score = final_numeric_score_of final_numeric_raw;
          (lvl, cat, msg) = tier_of final_numeric_score
      in \<lparr> score = final_numeric_score, level = lvl, category = cat, message = msg,
           debug = \<lparr> dbg_market_risk_score = market_risk_score,
                     dbg_market_risk_level = risk_level_of market_risk_score,
                     dbg_sentiment_label = sentiment_label,
                     dbg_sentiment_score = s_score,
                     dbg_sentiment_numeric_risk = sentiment_numeric_risk,
                     dbg_sentiment_risk_level = sentiment_level_of sent s_score,
                     dbg_price_risk_score = price_risk_score,
                     dbg_weights = \<lparr> w_market = W_MARKET, w_sentiment = W_SENTIMENT,
                                     w_price = W_PRICE \<rparr>,
                     dbg_final_raw = final_numeric_raw \<rparr> \<rparr>)"

text \<open>
  \<open>analyze_risk\<close>: the coercions run in the source's order (growth rate, volatility,
  location factor, label, sentiment score, then the guarded price), and the first one
  that raises ends the call.  The arithmetic that follows raises nothing; it is carried
  out when all five numbers are finite.
\<close>

definition analyze_risk ::
  "pyval \<Rightarrow> pyval \<Rightarrow> pyval \<Rightarrow> pyval \<Rightarrow> pyval \<Rightarrow> pyval \<Rightarrow> other_outcome + risk_assessment" where
  "analyze_risk current_price growth_rate volatility sentiment_label sentiment_score location_factor =
     (case py_float growth_rate of Inl e \<Rightarrow> Inl (Raises e) | Inr g \<Rightarrow>
      case py_float volatility of Inl e \<Rightarrow> Inl (Raises e) | Inr v \<Rightarrow>
      case py_float location_factor of Inl e \<Rightarrow> Inl (Raises e) | Inr lf \<Rightarrow>
      case sent_of sentiment_label of Inl e \<Rightarrow> Inl (Raises e) | Inr sent \<Rightarrow>
      case py_float (py_or sentiment_score (PyNum 50)) of Inl e \<Rightarrow> Inl (Raises e) | Inr s_score \<Rightarrow>
      let cp = price_of current_price in
      if is_Fin cp \<and> is_Fin g \<and> is_Fin v \<and> is_Fin lf \<and> is_Fin s_score
      then Inr (assess (un_Fin cp) (un_Fin g) (un_Fin v) (un_Fin lf) sentiment_label sent
                  (un_Fin s_score))
      else Inl NonFinite)"

subsection \<open>The prescription engine\<close>

text \<open>
  An explanation is an f-string: literal text with interpolated values.  The values are
  kept as they are, not rendered.
\<close>

datatype piece = Lit string | Val real | Obj pyval

record prescription =
  action :: string
  explanation :: "piece list"

text \<open>
  \<open>growth_rate * 100.0\<close>: \<open>None\<close> and strings raise \<open>TypeError\<close>, and an \<open>int\<close> is
  converted to a float first, which raises \<open>OverflowError\<close> beyond the float range.
\<close>

fun py_times_100 :: "pyval \<Rightarrow> py_error + fval" where
  "py_times_100 (PyNum r) = Inr (Fin (r * 100))"
| "py_times_100 (PyInt n) =
     (if \<bar>n\<bar> < float_int_limit then Inr (Fin (of_int n * 100)) else Inl OverflowError)"
| "py_times_100 PyInf = Inr PosInf"
| "py_times_100 PyNegInf = Inr NegInf"
| "py_times_100 PyNaN = Inr NaN"
| "py_times_100 _ = Inl TypeError"

text \<open>
  \<open>risk_score < 30\<close> needs a number: \<open>None\<close> and strings raise \<open>TypeError\<close>; an \<open>int\<close>
  of any size is compared as it is.  The first test always evaluates this comparison.
\<close>

fun py_number :: "pyval \<Rightarrow> py_error + fval" where
  "py_number (PyNum r) = Inr (Fin r)"
| "py_number (PyInt n) = Inr (Fin (of_int n))"
| "py_number PyInf = Inr PosInf"
| "py_number PyNegInf = Inr NegInf"
| "py_number PyNaN = Inr NaN"
| "py_number _ = Inl TypeError"

definition prescribe :: "pyval \<Rightarrow> real \<Rightarrow> real \<Rightarrow> prescription" where
  "prescribe risk_score rs roi_pct =
     (if rs < 30 \<and> 3 < roi_pct then
        \<lparr> action = ''Buy'',
          explanation = [Lit ''Low risk and strong expected growth ('', Val roi_pct, Lit ''%).''] \<rparr>
      else if rs < 60 \<and> 0 < roi_pct then
        \<lparr> action = ''Hold'',
          explanation = [Lit ''Moderate risk with mild positive growth ('', Val roi_pct, Lit ''%).''] \<rparr>
      else if roi_pct < 0 then
        \<lparr> action = ''Sell'',
          explanation = [Lit ''Negative growth forecast ('', Val roi_pct, Lit ''%). High caution.''] \<rparr>
      else
        \<lparr> action = ''Wait'',
          explanation = [Lit ''No clear signal (risk '', Obj risk_score, Lit '', expected '',
                         Val roi_pct, Lit ''%).''] \<rparr>)"

definition get_prescription :: "pyval \<Rightarrow> pyval \<Rightarrow> other_outcome + prescription" where
  "get_prescription risk_score growth_rate =
     (case py_times_100 growth_rate of Inl e \<Rightarrow> Inl (Raises e) | Inr g100 \<Rightarrow>
      case py_number risk_score of Inl e \<Rightarrow> Inl (Raises e) | Inr rs \<Rightarrow>
      if is_Fin g100 \<and> is_Fin rs
      then Inr (prescribe risk_score (un_Fin rs) (round2 (un_Fin g100)))
      else Inl NonFinite)"

text \<open>Scenario B of the specification, as one call of the scorer.\<close>

definition scenario_B :: "other_outcome + risk_assessment" where
  "scenario_B =
     analyze_risk (PyNum 150) (PyNum (-0.03)) (PyNum 0.04) (PyStr ''Negative'') (PyNum 25)
       (PyNum 0.9)"

section \<open>The forecast engine (ts_forecast.py)\<close>

subsection \<open>Quarter-end timestamps\<close>

text \<open>
  A timestamp is a calendar date (the series carries no time of day).  Quarters are
  numbered consecutively: quarter \<open>4 * y + k\<close> is the quarter \<open>k + 1\<close> of year \<open>y\<close>.
\<close>

datatype date = Date (year: int) (month: nat) (day: nat)

definition quarter_of :: "date \<Rightarrow> int" where
  "quarter_of d = 4 * year d + int ((month d - 1) div 3)"

definition quarter_end :: "int \<Rightarrow> date" where
  "quarter_end q =
     (let k = q mod 4 in
      Date (q div 4) (nat (3 * k + 3)) (if k = 1 \<or> k = 2 then 30 else 31))"

text \<open>\<open>index.to_period('Q').to_timestamp('Q')\<close>: the last day of the date's quarter.\<close>

definition to_quarter_end :: "date \<Rightarrow> date" where
  "to_quarter_end d = quarter_end (quarter_of d)"

text \<open>
  \<open>d + pd.offsets.QuarterEnd()\<close>: the first quarter end strictly after \<open>d\<close>, so a date
  that is a quarter end moves to the end of the next quarter.
\<close>

definition add_QuarterEnd :: "date \<Rightarrow> date" where
  "add_QuarterEnd d =
     (if d = quarter_end (quarter_of d) then quarter_end (quarter_of d + 1)
      else quarter_end (quarter_of d))"

text \<open>
  \<open>pd.date_range(start, periods, freq='Q')\<close>: the first \<open>periods\<close> quarter ends from
  \<open>start\<close> on (a start inside a quarter rolls forward to that quarter's end).
\<close>

definition date_range_Q :: "date \<Rightarrow> nat \<Rightarrow> date list" where
  "date_range_Q start periods = map (\<lambda>i. quarter_end (quarter_of start + int i)) [0..<periods]"

definition date_less :: "date \<Rightarrow> date \<Rightarrow> bool" where
  "date_less a b =
     (year a < year b \<or> (year a = year b \<and>
        (month a < month b \<or> (month a = month b \<and> day a < day b))))"

subsection \<open>The cached state\<close>

text \<open>
  The module keeps two globals, \<open>_hpi_series\<close> and \<open>_model_fit\<close>.  A series is its rows
  in index order.  The fitted ARIMA model is opaque: all the engine asks of it is
  \<open>get_forecast(steps)\<close>, giving the predicted means and the confidence bounds.
\<close>

type_synonym series = "(date \<times> real) list"

datatype fitted = Fitted (get_forecast: "nat \<Rightarrow> real list \<times> (real \<times> real) list")

record state =
  hpi_series :: "series option"
  model_fit :: "fitted option"

definition initial_state :: state where
  "initial_state = \<lparr> hpi_series = None, model_fit = None \<rparr>"

subsection \<open>forecast_hpi\<close>

text \<open>
  The number of steps is a count.  In the fallback branch \<open>_hpi_series.iloc[-1]\<close> raises
  \<open>IndexError\<close> on an empty series, and so does \<open>_hpi_series.index[-1]\<close> after either
  branch.  Assigning the index raises \<open>ValueError\<close> when the lengths differ.  The
  confidence bounds are returned as their rows, or \<open>None\<close>.  (The \<open>except\<close> branch with a
  monthly index is left out: adding a quarter offset to a timestamp does not raise.)
\<close>

definition forecast_hpi ::
  "state \<Rightarrow> nat \<Rightarrow> py_error + ((date \<times> real) list \<times> (real \<times> real) list option)" where
  "forecast_hpi st steps =
     (case hpi_series st of
        None \<Rightarrow> Inl RuntimeError
      | Some ser \<Rightarrow>
          (case (case model_fit st of
                   Some m \<Rightarrow> Inr (fst (get_forecast m steps), Some (snd (get_forecast m steps)))
                 | None \<Rightarrow>
                     (if ser = [] then Inl IndexError
                      else Inr (replicate steps (snd (last ser)), None)))
           of Inl e \<Rightarrow> Inl e
            | Inr (forecast, conf_int) \<Rightarrow>
                if ser = [] then Inl IndexError
                else
                  (let last_date = fst (last ser);
                       next_q_end = add_QuarterEnd last_date;
                       forecast_index = date_range_Q next_q_end steps
                   in if length forecast \<noteq> length forecast_index then Inl ValueError
                      else Inr (zip forecast_index forecast, conf_int))))"

subsection \<open>get_market_forecast_summary\<close>

text \<open>
  The volatility can be NaN, so it is an \<open>fval\<close>.  \<open>pct_change\<close> divides each value by its predecessor; the first entry,
  and 0/0, are NaN, and a non-zero value over 0 is an infinity.
\<close>

definition ratio_minus_1 :: "real \<Rightarrow> real \<Rightarrow> fval" where
  "ratio_minus_1 cur prev =
     (if prev \<noteq> 0 then Fin (cur / prev - 1)
      else if 0 < cur then PosInf else if cur < 0 then NegInf else NaN)"

definition pct_change :: "real list \<Rightarrow> fval list" where
  "pct_change xs = (case xs of [] \<Rightarrow> [] | _ # r \<Rightarrow> NaN # map2 ratio_minus_1 r xs)"

definition dropna :: "fval list \<Rightarrow> fval list" where
  "dropna xs = filter (\<lambda>x. x \<noteq> NaN) xs"

fun finite_part :: "fval list \<Rightarrow> real list option" where
  "finite_part [] = Some []"
| "finite_part (Fin x # r) = map_option ((#) x) (finite_part r)"
| "finite_part (_ # r) = None"

definition sample_std :: "real list \<Rightarrow> real" where
  "sample_std xs =
     (let n = real (length xs); m = sum_list xs / n
      in sqrt (sum_list (map (\<lambda>x. (x - m)\<^sup>2) xs) / (n - 1)))"

text \<open>
  \<open>Series.std()\<close> (one delta degree of freedom): NaN for fewer than two entries and when
  an entry is infinite.
\<close>

definition std :: "fval list \<Rightarrow> fval" where
  "std xs =
     (case finite_part xs of
        None \<Rightarrow> NaN
      | Some ys \<Rightarrow> if length ys < 2 then NaN else Fin (sample_std ys))"

text \<open>\<open>x < c\<close> for a float \<open>x\<close>: false for NaN.\<close>

fun fval_less :: "fval \<Rightarrow> real \<Rightarrow> bool" where
  "fval_less (Fin x) c = (x < c)"
| "fval_less NegInf c = True"
| "fval_less _ c = False"

type_synonym summary = "real \<times> fval \<times> string \<times> (date \<times> real) list option"

definition safe_default :: summary where
  "safe_default = (0, Fin 0, ''Moderate'', None)"

text \<open>The body of the \<open>try\<close> block; \<open>forecast.iloc[-1]\<close> raises on an empty forecast.\<close>

definition summary_try :: "state \<Rightarrow> series \<Rightarrow> nat \<Rightarrow> py_error + summary" where
  "summary_try st ser steps =
     (case forecast_hpi st steps of
        Inl e \<Rightarrow> Inl e
      | Inr (forecast, _) \<Rightarrow>
          if ser = [] then Inl IndexError
          else
            (let last_hist = snd (last ser) in
             if forecast = [] then Inl IndexError
             else
               (let last_fore = snd (last forecast);
                    growth_rate = (if last_hist \<noteq> 0 then (last_fore - last_hist) / last_hist else 0);
                    returns = dropna (pct_change (map snd ser));
                    volatility = (if 0 < length returns then std returns else Fin 0);
                    risk = (if 0.05 < growth_rate \<and> fval_less volatility 0.02 then ''Low''
                            else if - 0.02 < growth_rate then ''Moderate''
                            else ''High'')
                in Inr (growth_rate, volatility, risk, Some forecast))))"

definition get_market_forecast_summary :: "state \<Rightarrow> nat \<Rightarrow> summary" where
  "get_market_forecast_summary st steps =
     (case hpi_series st of
        None \<Rightarrow> safe_default
      | Some ser \<Rightarrow>
          (case summary_try st ser steps of
             Inl e \<Rightarrow> safe_default
           | Inr r \<Rightarrow> r))"

subsection \<open>load_hpi_and_fit\<close>

text \<open>
  What the loader finds at the path: nothing, a file \<open>read_csv\<close> cannot parse, or a
  table.  A table is its columns in file order, each a name with the raw text of its
  cells; column names are distinct and all columns have one cell per row.
\<close>

type_synonym frame = "(string \<times> string list) list"

datatype source = NoFile | Unreadable | Table frame

text \<open>
  The collaborators outside the module: whether statsmodels could be imported, the ARIMA
  fit (\<open>None\<close> when fitting raises), and the permissive date parser that
  \<open>pd.to_datetime\<close> falls back to.
\<close>

record env =
  has_arima :: bool
  arima_fit :: "series \<Rightarrow> nat \<times> nat \<times> nat \<Rightarrow> fitted option"
  flexible_date :: "string \<Rightarrow> date option"

text \<open>
  The primary format \<open>%b-%y\<close>, as in \<open>Mar-17\<close>: a month abbreviation in any case, a
  hyphen and two digits; years 00 to 68 are 2000 to 2068, the others 1969 to 1999.
\<close>

definition month_abbrs :: "string list" where
  "month_abbrs = [''jan'', ''feb'', ''mar'', ''apr'', ''may'', ''jun'',
                  ''jul'', ''aug'', ''sep'', ''oct'', ''nov'', ''dec'']"

fun index_of :: "'a \<Rightarrow> 'a list \<Rightarrow> nat option" where
  "index_of x [] = None"
| "index_of x (y # ys) = (if x = y then Some 0 else map_option Suc (index_of x ys))"

definition strptime_b_y :: "string \<Rightarrow> date option" where
  "strptime_b_y s =
     (if length s = 6 \<and> s ! 3 = CHR ''-'' \<and> is_digit (s ! 4) \<and> is_digit (s ! 5) then
        (case index_of (lower (take 3 s)) month_abbrs of
           None \<Rightarrow> None
         | Some i \<Rightarrow>
             (let y = digits_nat (drop 4 s)
              in Some (Date (if y \<le> 68 then 2000 + int y else 1900 + int y) (i + 1) 1)))
      else None)"

definition date_column :: "frame \<Rightarrow> string option" where
  "date_column df =
     (if ''Quarter'' \<in> set (map fst df) then Some ''Quarter''
      else if ''Date'' \<in> set (map fst df) then Some ''Date''
      else None)"

definition the_column :: "frame \<Rightarrow> string \<Rightarrow> string list" where
  "the_column df c = (case map_of df c of None \<Rightarrow> [] | Some cells \<Rightarrow> cells)"

text \<open>
  A series here holds finite values, so a cell counts as a number when it reads as a
  finite one.  Tables with missing, NaN or infinite entries are outside this model of a
  table.
\<close>

definition finite_cell :: "string \<Rightarrow> real option" where
  "finite_cell c = (case float_of_str c of Some (Fin x) \<Rightarrow> Some x | _ \<Rightarrow> None)"

text \<open>
  A column read from the file has a numeric dtype when it has cells and every cell is a
  number.
\<close>

definition is_numeric_dtype :: "string list \<Rightarrow> bool" where
  "is_numeric_dtype cells = (cells \<noteq> [] \<and> list_all (\<lambda>c. finite_cell c \<noteq> None) cells)"

text \<open>
  The value column among the columns left after the date column became the index:
  \<open>ALL\<close>, else \<open>HPI\<close>, else the first numeric column, else \<open>KeyError\<close>.
\<close>

definition hpi_column :: "frame \<Rightarrow> py_error + string" where
  "hpi_column df =
     (if ''ALL'' \<in> set (map fst df) then Inr ''ALL''
      else if ''HPI'' \<in> set (map fst df) then Inr ''HPI''
      else (case filter (\<lambda>(c, cells). is_numeric_dtype cells) df of
              [] \<Rightarrow> Inl KeyError
            | (c, _) # _ \<Rightarrow> Inr c))"

text \<open>\<open>dropna\<close> on the parsed dates, then \<open>sort_values\<close> (modelled as a stable sort).\<close>

fun drop_unparsed :: "(date option \<times> string) list \<Rightarrow> (date \<times> string) list" where
  "drop_unparsed [] = []"
| "drop_unparsed ((None, c) # r) = drop_unparsed r"
| "drop_unparsed ((Some d, c) # r) = (d, c) # drop_unparsed r"

fun insort_date :: "date \<times> 'a \<Rightarrow> (date \<times> 'a) list \<Rightarrow> (date \<times> 'a) list" where
  "insort_date x [] = [x]"
| "insort_date x (y # ys) = (if date_less (fst y) (fst x) then y # insort_date x ys else x # y # ys)"

definition sort_by_date :: "(date \<times> 'a) list \<Rightarrow> (date \<times> 'a) list" where
  "sort_by_date xs = foldr insort_date xs []"

text \<open>\<open>astype(float)\<close>: every cell must read as a number, else \<open>ValueError\<close>.\<close>

fun astype_float :: "(date \<times> string) list \<Rightarrow> py_error + series" where
  "astype_float [] = Inr []"
| "astype_float ((d, c) # r) =
     (case finite_cell c of
        None \<Rightarrow> Inl ValueError
      | Some x \<Rightarrow> (case astype_float r of Inl e \<Rightarrow> Inl e | Inr ys \<Rightarrow> Inr ((d, x) # ys)))"

text \<open>
  The call returns its outcome together with the globals as it leaves them.  Every
  \<open>raise\<close> stands before the first assignment to a global (line 70 of the source);
  from there on the call cannot fail: the index conversion and the fit are under \<open>try\<close>.
\<close>

definition load_hpi_and_fit ::
  "env \<Rightarrow> state \<Rightarrow> source \<Rightarrow> nat \<times> nat \<times> nat \<Rightarrow> (py_error + bool) \<times> state" where
  "load_hpi_and_fit ev st src arima_order =
     (case src of
        NoFile \<Rightarrow> (Inl FileNotFoundError, st)
      | Unreadable \<Rightarrow> (Inl ParserError, st)
      | Table df \<Rightarrow>
          (case date_column df of
             None \<Rightarrow> (Inl KeyError, st)
           | Some date_col \<Rightarrow>
               (let texts = map strip (the_column df date_col);
                    primary = map strptime_b_y texts;
                    parsed = (if None \<in> set primary then map (flexible_date ev) texts
                              else primary);
                    data = filter (\<lambda>(c, cells). c \<noteq> date_col) df
                in case hpi_column data of
                     Inl e \<Rightarrow> (Inl e, st)
                   | Inr hpi_col \<Rightarrow>
                       (case astype_float
                               (sort_by_date (drop_unparsed (zip parsed (the_column data hpi_col))))
                        of Inl e \<Rightarrow> (Inl e, st)
                         | Inr ser \<Rightarrow>
                             (let st1 = st\<lparr>hpi_series := Some ser\<rparr>;
                                  st2 = st1\<lparr>hpi_series :=
                                          Some (map (\<lambda>(d, x). (to_quarter_end d, x)) ser)\<rparr>;
                                  st3 = (if has_arima ev
                                         then st2\<lparr>model_fit := arima_fit ev
                                                 (map (\<lambda>(d, x). (to_quarter_end d, x)) ser)
                                                 arima_order\<rparr>
                                         else st2\<lparr>model_fit := None\<rparr>)
                              in (Inr True, st3))))))"

subsection \<open>Example inputs\<close>

text \<open>
  An environment without statsmodels, a two-row table, the state it loads to, and a
  table with a header and no rows.
\<close>

definition no_arima :: env where
  "no_arima = \<lparr> has_arima = False, arima_fit = (\<lambda>ser order. None), flexible_date = (\<lambda>s. None) \<rparr>"

definition two_quarters :: source where
  "two_quarters = Table [(''Date'', [''Mar-17'', ''Jun-17'']), (''HPI'', [''100'', ''110''])]"

definition two_quarters_state :: state where
  "two_quarters_state =
     \<lparr> hpi_series = Some [(Date 2017 3 31, 100), (Date 2017 6 30, 110)], model_fit = None \<rparr>"

definition header_only :: source where
  "header_only = Table [(''Date'', []), (''HPI'', [])]"

section \<open>Properties of the scorer\<close>

lemma score_assess:
  "score (assess cp g v lf lbl sent s) =
     final_numeric_score_of (final_numeric_raw_of (market_risk_score_of g v lf)
       (sentiment_numeric_risk_of s) (price_risk_score_of cp))"
  by (simp add: assess_def Let_def split: prod.split)

lemma level_assess:
  "level (assess cp g v lf lbl sent s) =
     fst (tier_of (final_numeric_score_of (final_numeric_raw_of (market_risk_score_of g v lf)
       (sentiment_numeric_risk_of s) (price_risk_score_of cp))))"
  by (simp add: assess_def Let_def split: prod.split)

lemma sent_of_Negative: "sent_of (PyStr ''Negative'') = Inr ''negative''"
  by code_simp

lemma scenario_B_assess:
  "scenario_B = Inr (assess 150 (-0.03) 0.04 0.9 (PyStr ''Negative'') ''negative'' 25)"
  by (simp add: scenario_B_def analyze_risk_def sent_of_Negative py_or_def price_of_def)

lemma scenario_B_raw:
  "final_numeric_raw_of (market_risk_score_of (-0.03) 0.04 0.9)
     (sentiment_numeric_risk_of 25) (price_risk_score_of 150) = 3033 / 125"
  by (simp add: final_numeric_raw_of_def market_risk_score_of_def sentiment_numeric_risk_of_def
      price_risk_score_of_def clip_def W_MARKET_def W_SENTIMENT_def W_PRICE_def)

lemma scenario_B_rounded: "final_numeric_score_of (3033 / 125) = 2426 / 100"
  by (simp add: final_numeric_score_of_def round2_def rint_def clip_def)

lemma scenario_B_score: "map_sum id score scenario_B = Inr (2426 / 100)"
  by (simp only: scenario_B_assess score_assess scenario_B_raw scenario_B_rounded
      map_sum.simps id_apply)

lemma scenario_B_level: "map_sum id level scenario_B = Inr ''Low''"
proof -
  have "tier_of (2426 / 100) =
      (''Low'', ''Stable Market'',
       ''Strong signals with low volatility. Good investment conditions.'')"
    by (simp add: tier_of_def)
  then show ?thesis
    by (simp only: scenario_B_assess level_assess scenario_B_raw scenario_B_rounded
        map_sum.simps id_apply fst_conv)
qed

lemma scenario_B_sell:
  "map_sum id action (get_prescription (PyNum (2426 / 100)) (PyNum (-0.03))) = Inr ''Sell''"
  by (simp add: get_prescription_def prescribe_def round2_def rint_def)

text \<open>
  C1 (as stated, refuted).  Scenario B does not reach the High tier: the composite score
  is 24.26, which is below 60, and the level is not \<open>High\<close>.
\<close>

theorem C1_scenario_B_not_high:
  "map_sum id score scenario_B = Inr (2426 / 100) \<and> (2426 / 100 :: real) < 60
     \<and> map_sum id level scenario_B \<noteq> Inr ''High''"
  using scenario_B_score scenario_B_level by simp

text \<open>
  C1 (amended).  For growth_rate = -0.03, volatility = 0.04, label \<open>Negative\<close>,
  sentiment_score = 25, current_price = 150 and location_factor = 0.9 the scorer returns
  the composite score 24.26 and the level \<open>Low\<close>; the prescription for that score and
  growth_rate = -0.03 (ROI -3 percent) is \<open>Sell\<close>.
\<close>

theorem C1_scenario_B_low_sell:
  "map_sum id score scenario_B = Inr (2426 / 100)
     \<and> map_sum id level scenario_B = Inr ''Low''
     \<and> (case scenario_B of
           Inl e \<Rightarrow> Inl e
         | Inr r \<Rightarrow> map_sum id action (get_prescription (PyNum (score r)) (PyNum (-0.03))))
         = Inr ''Sell''"
proof -
  have "score (assess 150 (-0.03) 0.04 0.9 (PyStr ''Negative'') ''negative'' 25) = 2426 / 100"
    by (simp only: score_assess scenario_B_raw scenario_B_rounded)
  then have "(case scenario_B of
           Inl e \<Rightarrow> Inl e
         | Inr r \<Rightarrow> map_sum id action (get_prescription (PyNum (score r)) (PyNum (-0.03))))
         = Inr ''Sell''"
    by (simp only: scenario_B_assess sum.case scenario_B_sell)
  then show ?thesis
    using scenario_B_score scenario_B_level by simp
qed

subsection \<open>Monotonicity of the composite score\<close>

lemma clip_mono: "x \<le> y \<Longrightarrow> clip x lo hi \<le> clip y lo hi"
  by (auto simp: clip_def min_def max_def)

lemma rint_mono: "x \<le> y \<Longrightarrow> rint x \<le> rint y"
proof -
  assume xy: "x \<le> y"
  have fl: "\<lfloor>x\<rfloor> \<le> \<lfloor>y\<rfloor>" using xy by (rule floor_mono)
  have lo: "\<lfloor>x\<rfloor> \<le> rint x" "rint x \<le> \<lfloor>x\<rfloor> + 1"
    by (auto simp: rint_def Let_def)
  have lo': "\<lfloor>y\<rfloor> \<le> rint y" 
    by (auto simp: rint_def Let_def)
  show ?thesis
  proof (cases "\<lfloor>x\<rfloor> < \<lfloor>y\<rfloor>")
    case True
    then show ?thesis using lo lo' by linarith
  next
    case False
    then have eq: "\<lfloor>x\<rfloor> = \<lfloor>y\<rfloor>" using fl by linarith
    then have "x - of_int \<lfloor>x\<rfloor> \<le> y - of_int \<lfloor>y\<rfloor>" using xy by simp
    then show ?thesis using eq
      by (auto simp: rint_def Let_def)
  qed
qed

lemma round2_mono: "x \<le> y \<Longrightarrow> round2 x \<le> round2 y"
  by (simp add: round2_def rint_mono divide_right_mono)

lemma final_score_mono:
  "m \<le> m' \<Longrightarrow> s \<le> s' \<Longrightarrow> p \<le> p' \<Longrightarrow>
   final_numeric_score_of (final_numeric_raw_of m s p)
     \<le> final_numeric_score_of (final_numeric_raw_of m' s' p')"
  unfolding final_numeric_score_of_def final_numeric_raw_of_def W_MARKET_def W_SENTIMENT_def W_PRICE_def
  by (intro clip_mono round2_mono add_mono mult_right_mono) auto

lemma market_mono_vol:
  "lf \<le> 1.2 \<Longrightarrow> v \<le> v' \<Longrightarrow> market_risk_score_of g v lf \<le> market_risk_score_of g v' lf"
  unfolding market_risk_score_of_def Let_def
  by (intro clip_mono mult_right_mono) auto

lemma market_antimono_growth:
  "lf \<le> 1.2 \<Longrightarrow> g \<le> g' \<Longrightarrow> market_risk_score_of g' v lf \<le> market_risk_score_of g v lf"
  unfolding market_risk_score_of_def Let_def
  by (intro clip_mono mult_right_mono) auto

lemma price_mono: "cp \<le> cp' \<Longrightarrow> price_risk_score_of cp \<le> price_risk_score_of cp'"
  unfolding price_risk_score_of_def by (intro clip_mono) auto

lemma sentiment_antimono:
  "s \<le> s' \<Longrightarrow> sentiment_numeric_risk_of s' \<le> sentiment_numeric_risk_of s"
  unfolding sentiment_numeric_risk_of_def by (intro clip_mono) auto

lemma price_of_num: "price_of (PyNum cp) = Fin cp"
  by (simp add: price_of_def py_or_def)

lemma analyze_risk_numeric:
  "sent_of lbl = Inr sent \<Longrightarrow>
   analyze_risk (PyNum cp) (PyNum g) (PyNum v) lbl (PyNum s) (PyNum lf)
     = Inr (assess cp g v lf lbl sent (if s = 0 then 50 else s))"
  by (simp add: analyze_risk_def py_or_def price_of_num)

lemma sent_of_Neutral: "sent_of (PyStr ''Neutral'') = Inr ''neutral''"
  by code_simp

lemma sent_of_None: "sent_of PyNone = Inr ''neutral''"
  by code_simp

lemma sent_of_empty: "sent_of (PyStr []) = Inr ''neutral''"
  by code_simp

text \<open>
  C4 (amended).  With numeric arguments and a label that is a string or \<open>None\<close>, the
  scorer returns, and its composite score is non-decreasing in current_price for every
  location_factor; it is non-decreasing in volatility and non-increasing in growth_rate
  when location_factor is at most 1.2 (the factor \<open>1.2 - location_factor\<close> is then not
  negative); and it is non-increasing in sentiment_score over non-zero scores.
\<close>

theorem C4_monotone_by_design:
  assumes lbl: "sent_of lbl = Inr sent"
  shows "\<exists>r. analyze_risk (PyNum cp) (PyNum g) (PyNum v) lbl (PyNum s) (PyNum lf) = Inr r \<and>
     (\<forall>v'. lf \<le> 1.2 \<and> v \<le> v' \<longrightarrow>
        (\<exists>r'. analyze_risk (PyNum cp) (PyNum g) (PyNum v') lbl (PyNum s) (PyNum lf) = Inr r'
              \<and> score r \<le> score r')) \<and>
     (\<forall>cp'. cp \<le> cp' \<longrightarrow>
        (\<exists>r'. analyze_risk (PyNum cp') (PyNum g) (PyNum v) lbl (PyNum s) (PyNum lf) = Inr r'
              \<and> score r \<le> score r')) \<and>
     (\<forall>g'. lf \<le> 1.2 \<and> g \<le> g' \<longrightarrow>
        (\<exists>r'. analyze_risk (PyNum cp) (PyNum g') (PyNum v) lbl (PyNum s) (PyNum lf) = Inr r'
              \<and> score r' \<le> score r)) \<and>
     (\<forall>s'. s \<noteq> 0 \<and> s' \<noteq> 0 \<and> s \<le> s' \<longrightarrow>
        (\<exists>r'. analyze_risk (PyNum cp) (PyNum g) (PyNum v) lbl (PyNum s') (PyNum lf) = Inr r'
              \<and> score r' \<le> score r))"
proof -
  have vol: "score (assess cp g v lf lbl sent t) \<le> score (assess cp g v' lf lbl sent t)"
    if "lf \<le> 1.2" "v \<le> v'" for v' t
    unfolding score_assess using that by (intro final_score_mono market_mono_vol) auto
  have price: "score (assess cp g v lf lbl sent t) \<le> score (assess cp' g v lf lbl sent t)"
    if "cp \<le> cp'" for cp' t
    unfolding score_assess using that by (intro final_score_mono price_mono) auto
  have growth: "score (assess cp g' v lf lbl sent t) \<le> score (assess cp g v lf lbl sent t)"
    if "lf \<le> 1.2" "g \<le> g'" for g' t
    unfolding score_assess using that by (intro final_score_mono market_antimono_growth) auto
  have senti: "score (assess cp g v lf lbl sent s') \<le> score (assess cp g v lf lbl sent s)"
    if "s \<le> s'" for s'
    unfolding score_assess using that by (intro final_score_mono sentiment_antimono) auto
  show ?thesis
    using vol price growth senti by (simp add: analyze_risk_numeric [OF lbl])
qed


lemma score_numeric:
  "sent_of lbl = Inr sent \<Longrightarrow>
   map_sum id score (analyze_risk (PyNum cp) (PyNum g) (PyNum v) lbl (PyNum s) (PyNum lf))
     = Inr (final_numeric_score_of (final_numeric_raw_of (market_risk_score_of g v lf)
              (sentiment_numeric_risk_of (if s = 0 then 50 else s)) (price_risk_score_of cp)))"
  by (simp add: analyze_risk_numeric score_assess)

lemmas score_eval =
  final_numeric_score_of_def final_numeric_raw_of_def market_risk_score_of_def
  sentiment_numeric_risk_of_def price_risk_score_of_def clip_def round2_def rint_def
  W_MARKET_def W_SENTIMENT_def W_PRICE_def

text \<open>
  C4 (as stated, refuted).  With location_factor = 1.5 the market term is multiplied by
  a negative factor: raising volatility from 0 to 0.1, all else fixed, lowers the
  composite score from 18.4 to 15.25.
\<close>

theorem C4_location_above_1_2_reverses:
  "map_sum id score
     (analyze_risk (PyNum 0) (PyNum 0.5) (PyNum 0) (PyStr ''Neutral'') (PyNum 50) (PyNum 1.5))
     = Inr (1840 / 100)
   \<and> map_sum id score
     (analyze_risk (PyNum 0) (PyNum 0.5) (PyNum 0.1) (PyStr ''Neutral'') (PyNum 50) (PyNum 1.5))
     = Inr (1525 / 100)
   \<and> (1525 / 100 :: real) < 1840 / 100"
  by (simp add: score_numeric [OF sent_of_Neutral] score_eval)

text \<open>Witness for C4 (amended): volatility raised from 0.01 to 0.05 at location_factor 1.\<close>

theorem C4_monotone_witness:
  "\<exists>r r'. analyze_risk (PyNum 40) (PyNum 0.02) (PyNum 0.01) (PyStr ''Neutral'') (PyNum 50) (PyNum 1) = Inr r
     \<and> analyze_risk (PyNum 40) (PyNum 0.02) (PyNum 0.05) (PyStr ''Neutral'') (PyNum 50) (PyNum 1) = Inr r'
     \<and> (1::real) \<le> 1.2 \<and> (0.01::real) \<le> 0.05 \<and> score r \<le> score r'"
proof -
  from C4_monotone_by_design [OF sent_of_Neutral, of 40 "0.02" "0.01" 50 1]
  obtain r where r: "analyze_risk (PyNum 40) (PyNum 0.02) (PyNum 0.01) (PyStr ''Neutral'') (PyNum 50) (PyNum 1) = Inr r"
    and m: "\<forall>v'. (1::real) \<le> 1.2 \<and> 0.01 \<le> v' \<longrightarrow>
        (\<exists>r'. analyze_risk (PyNum 40) (PyNum 0.02) (PyNum v') (PyStr ''Neutral'') (PyNum 50) (PyNum 1) = Inr r'
              \<and> score r \<le> score r')"
    by blast
  have "(1::real) \<le> 1.2 \<and> (0.01::real) \<le> 0.05" by simp
  with m obtain r' where "analyze_risk (PyNum 40) (PyNum 0.02) (PyNum 0.05) (PyStr ''Neutral'') (PyNum 50) (PyNum 1) = Inr r'"
     "score r \<le> score r'" by blast
  with r show ?thesis by auto
qed

subsection \<open>Sentiment defaults and coercions\<close>

lemma analyze_risk_zero_score:
  "analyze_risk cp g v lbl (PyNum 0) lf = analyze_risk cp g v lbl (PyNum 50) lf"
  by (simp add: analyze_risk_def py_or_def split: sum.splits)

lemma analyze_risk_None_score:
  "analyze_risk cp g v lbl PyNone lf = analyze_risk cp g v lbl (PyNum 50) lf"
  by (simp add: analyze_risk_def py_or_def split: sum.splits)

lemma is_Fin_iff: "is_Fin x \<longleftrightarrow> (\<exists>r. x = Fin r)"
  by (cases x) auto

lemma analyze_risk_returns:
  "analyze_risk cp g v lbl ss lf = Inr r \<Longrightarrow>
   \<exists>cp' g' v' lf' sent s. py_float g = Inr (Fin g') \<and> py_float v = Inr (Fin v')
      \<and> py_float lf = Inr (Fin lf') \<and> sent_of lbl = Inr sent
      \<and> py_float (py_or ss (PyNum 50)) = Inr (Fin s) \<and> price_of cp = Fin cp'
      \<and> r = assess cp' g' v' lf' lbl sent s"
  by (auto simp: analyze_risk_def Let_def is_Fin_iff split: sum.splits if_splits)



lemma debug_assess:
  "dbg_sentiment_score (debug (assess cp g v lf lbl sent s)) = s"
  "dbg_sentiment_numeric_risk (debug (assess cp g v lf lbl sent s)) = sentiment_numeric_risk_of s"
  "dbg_sentiment_risk_level (debug (assess cp g v lf lbl sent s)) = sentiment_level_of sent s"
  "dbg_price_risk_score (debug (assess cp g v lf lbl sent s)) = price_risk_score_of cp"
  by (simp_all add: assess_def Let_def split: prod.split)

text \<open>
  C2 (the code at the failing input).  For sentiment_score = 0, a score inside [0,100],
  the sentiment sub-score reported as \<open>sentiment_numeric_risk\<close> is 50, not
  100 - 0 = 100: \<open>sentiment_score or 50.0\<close> takes the number 0 for a missing score.
\<close>

theorem C2_zero_sentiment_score_gives_50:
  "map_sum id (dbg_sentiment_numeric_risk \<circ> debug)
     (analyze_risk (PyNum 0) (PyNum 0) (PyNum 0) (PyStr ''Neutral'') (PyNum 0) (PyNum 1))
     = Inr 50
   \<and> (100 - 0 :: real) \<noteq> 50"
  by (simp add: analyze_risk_numeric [OF sent_of_Neutral] debug_assess
      sentiment_numeric_risk_of_def clip_def)

lemma sentiment_risk_nonzero:
  assumes "analyze_risk cp g v lbl (PyNum s) lf = Inr r" and "s \<noteq> 0" and "0 \<le> s" and "s \<le> 100"
  shows "dbg_sentiment_numeric_risk (debug r) = 100 - s"
proof -
  from analyze_risk_returns [OF assms(1)] assms(2)
  obtain cp' g' v' lf' sent where "r = assess cp' g' v' lf' lbl sent s"
    by (auto simp: py_or_def)
  then show ?thesis using assms(3,4)
    by (simp add: debug_assess sentiment_numeric_risk_of_def clip_def)
qed

text \<open>
  C10.  A label that is \<open>None\<close> or the empty string is read as \<open>Neutral\<close> (the
  same normalised label, hence the same discrete sentiment tier), and a sentiment_score
  that is 0 or \<open>None\<close> is replaced by 50: the call equals the call with score 50, and
  whenever it returns, the reported score and the sentiment sub-score are both 50.
\<close>

theorem C10_falsy_sentiment_defaults:
  "sent_of PyNone = sent_of (PyStr ''Neutral'')
   \<and> sent_of (PyStr []) = sent_of (PyStr ''Neutral'')
   \<and> analyze_risk cp g v lbl (PyNum 0) lf = analyze_risk cp g v lbl (PyNum 50) lf
   \<and> analyze_risk cp g v lbl PyNone lf = analyze_risk cp g v lbl (PyNum 50) lf
   \<and> (\<forall>r. analyze_risk cp g v lbl (PyNum 0) lf = Inr r \<longrightarrow>
          dbg_sentiment_score (debug r) = 50 \<and> dbg_sentiment_numeric_risk (debug r) = 50)
   \<and> map_sum id (dbg_sentiment_risk_level \<circ> debug) (analyze_risk cp g v PyNone ss lf)
       = map_sum id (dbg_sentiment_risk_level \<circ> debug) (analyze_risk cp g v (PyStr ''Neutral'') ss lf)
   \<and> map_sum id (dbg_sentiment_risk_level \<circ> debug) (analyze_risk cp g v (PyStr []) ss lf)
       = map_sum id (dbg_sentiment_risk_level \<circ> debug) (analyze_risk cp g v (PyStr ''Neutral'') ss lf)"
proof -
  have sub: "dbg_sentiment_score (debug r) = 50 \<and> dbg_sentiment_numeric_risk (debug r) = 50"
    if "analyze_risk cp g v lbl (PyNum 0) lf = Inr r" for r
  proof -
    from analyze_risk_returns [OF that]
    obtain cp' g' v' lf' sent where "r = assess cp' g' v' lf' lbl sent 50"
      by (auto simp: py_or_def)
    then show ?thesis
      by (simp add: debug_assess sentiment_numeric_risk_of_def clip_def)
  qed
  have lvl: "map_sum id (dbg_sentiment_risk_level \<circ> debug) (analyze_risk cp g v l1 ss lf)
       = map_sum id (dbg_sentiment_risk_level \<circ> debug) (analyze_risk cp g v l2 ss lf)"
    if "sent_of l1 = sent_of l2" for l1 l2
    using that by (auto simp: analyze_risk_def Let_def debug_assess split: sum.splits)
  show ?thesis
    using sub lvl [of PyNone "PyStr ''Neutral''"] lvl [of "PyStr []" "PyStr ''Neutral''"]
    by (simp add: analyze_risk_zero_score [symmetric] analyze_risk_None_score
        sent_of_None sent_of_empty sent_of_Neutral)
qed

text \<open>
  Witness for C10: label \<open>None\<close> and sentiment_score 0 with numeric market inputs.
\<close>

theorem C10_falsy_sentiment_witness:
  "(\<exists>r. analyze_risk (PyNum 40) (PyNum 0.02) (PyNum 0.01) PyNone (PyNum 0) (PyNum 1) = Inr r
        \<and> dbg_sentiment_score (debug r) = 50 \<and> dbg_sentiment_numeric_risk (debug r) = 50)"
proof -
  have "analyze_risk (PyNum 40) (PyNum 0.02) (PyNum 0.01) PyNone (PyNum 0) (PyNum 1)
      = Inr (assess 40 0.02 0.01 1 PyNone ''neutral'' 50)"
    by (simp add: analyze_risk_numeric [OF sent_of_None])
  with C10_falsy_sentiment_defaults [of "PyNum 40" "PyNum 0.02" "PyNum 0.01" PyNone "PyNum 1"]
  show ?thesis by blast
qed












section \<open>Properties of the forecast engine\<close>

subsection \<open>Quarter arithmetic\<close>

lemma quarter_of_quarter_end: "quarter_of (quarter_end q) = q"
proof -
  have k: "0 \<le> q mod 4" "q mod 4 < 4" by simp_all
  then have "int ((nat (3 * (q mod 4) + 3) - 1) div 3) = q mod 4"
    by (simp add: nat_diff_distrib' zdiv_int nat_div_distrib) 
  then show ?thesis
    by (simp add: quarter_of_def quarter_end_def Let_def)
qed

lemma add_QuarterEnd_quarter_end: "add_QuarterEnd (quarter_end q) = quarter_end (q + 1)"
  by (simp add: add_QuarterEnd_def quarter_of_quarter_end)

lemma date_less_quarter_end_Suc: "date_less (quarter_end q) (quarter_end (q + 1))"
proof -
  have "q mod 4 = 0 \<or> q mod 4 = 1 \<or> q mod 4 = 2 \<or> q mod 4 = 3" by presburger
  then show ?thesis
  proof (elim disjE)
    assume "q mod 4 = 0" 
    moreover from this have "(q + 1) mod 4 = 1" "(q + 1) div 4 = q div 4" by presburger+
    ultimately show ?thesis by (simp add: date_less_def quarter_end_def)
  next
    assume "q mod 4 = 1" 
    moreover from this have "(q + 1) mod 4 = 2" "(q + 1) div 4 = q div 4" by presburger+
    ultimately show ?thesis by (simp add: date_less_def quarter_end_def)
  next
    assume "q mod 4 = 2" 
    moreover from this have "(q + 1) mod 4 = 3" "(q + 1) div 4 = q div 4" by presburger+
    ultimately show ?thesis by (simp add: date_less_def quarter_end_def)
  next
    assume "q mod 4 = 3" 
    moreover from this have "(q + 1) mod 4 = 0" "(q + 1) div 4 = q div 4 + 1" by presburger+
    ultimately show ?thesis by (simp add: date_less_def quarter_end_def)
  qed
qed

lemma date_less_trans: "date_less a b \<Longrightarrow> date_less b c \<Longrightarrow> date_less a c"
  by (auto simp: date_less_def)

lemma date_less_quarter_end: "q < q' \<Longrightarrow> date_less (quarter_end q) (quarter_end q')"
proof -
  have "date_less (quarter_end q) (quarter_end (q + 1 + int n))" for n
  proof (induction n)
    case 0
    show ?case using date_less_quarter_end_Suc [of q] by simp
  next
    case (Suc n)
    have "date_less (quarter_end (q + 1 + int n)) (quarter_end (q + 1 + int n + 1))"
      by (rule date_less_quarter_end_Suc)
    with Suc show ?case by (auto intro: date_less_trans simp: add.assoc)
  qed
  moreover assume "q < q'"
  then have "q' = q + 1 + int (nat (q' - q - 1))" by simp
  ultimately show ?thesis by metis
qed

lemma sorted_date_range_Q: "sorted_wrt date_less (date_range_Q start n)"
  by (auto simp: date_range_Q_def sorted_wrt_map sorted_wrt_iff_nth_less
      intro!: date_less_quarter_end)

lemma length_date_range_Q: "length (date_range_Q start n) = n"
  by (simp add: date_range_Q_def)


lemma forecast_degraded:
  assumes "hpi_series st = Some ser" and "ser \<noteq> []" and "model_fit st = None"
  shows "forecast_hpi st steps =
     Inr (zip (date_range_Q (add_QuarterEnd (fst (last ser))) steps)
            (replicate steps (snd (last ser))), None)"
  using assms by (simp add: forecast_hpi_def Let_def length_date_range_Q)

lemma load_success:
  assumes "load_hpi_and_fit ev st0 src ord = (Inr True, st)"
  shows "\<exists>ser0. hpi_series st = Some (map (\<lambda>(d, x). (to_quarter_end d, x)) ser0)"
  using assms
  by (auto simp: load_hpi_and_fit_def Let_def split: source.splits option.splits sum.splits if_splits)

lemma load_last_quarter_end:
  assumes "load_hpi_and_fit ev st0 src ord = (Inr True, st)"
      and "hpi_series st = Some ser" and "ser \<noteq> []"
  shows "fst (last ser) = quarter_end (quarter_of (fst (last ser)))"
proof -
  from load_success [OF assms(1)] assms(2)
  obtain ser0 where ser: "ser = map (\<lambda>(d, x). (to_quarter_end d, x)) ser0" by auto
  with assms(3) have "ser0 \<noteq> []" by auto
  then have "fst (last ser) = to_quarter_end (fst (last ser0))"
    by (simp add: ser last_map split: prod.splits)
  then show ?thesis
    by (simp add: to_quarter_end_def quarter_of_quarter_end)
qed

text \<open>
  C7.  After a successful load that left the engine Degraded (no fitted model) with a
  non-empty series, \<open>forecast_hpi\<close> returns, for every number of steps, exactly that many
  points, each carrying the last observed value, with no confidence bounds; the
  timestamps are the ends of the quarters following the last historical quarter, one
  per step, in strictly increasing order.
\<close>

theorem C7_degraded_forecast:
  assumes load: "load_hpi_and_fit ev st0 src ord = (Inr True, st)"
      and ser: "hpi_series st = Some ser" and ne: "ser \<noteq> []"
      and deg: "model_fit st = None"
  shows "\<exists>fc. forecast_hpi st steps = Inr (fc, None)
     \<and> length fc = steps
     \<and> (\<forall>p \<in> set fc. snd p = snd (last ser))
     \<and> map fst fc = map (\<lambda>i. quarter_end (quarter_of (fst (last ser)) + 1 + int i)) [0..<steps]
     \<and> sorted_wrt date_less (map fst fc)"
proof -
  let ?idx = "date_range_Q (add_QuarterEnd (fst (last ser))) steps"
  let ?fc = "zip ?idx (replicate steps (snd (last ser)))"
  have fc: "forecast_hpi st steps = Inr (?fc, None)"
    by (rule forecast_degraded [OF ser ne deg])
  have len: "length ?fc = steps" by (simp add: length_date_range_Q)
  have vals: "\<forall>p \<in> set ?fc. snd p = snd (last ser)"
    by (auto dest!: set_zip_rightD)
  have fsts: "map fst ?fc = ?idx" by (simp add: length_date_range_Q)
  have qe: "fst (last ser) = quarter_end (quarter_of (fst (last ser)))"
    by (rule load_last_quarter_end [OF load ser ne])
  have "add_QuarterEnd (fst (last ser)) = quarter_end (quarter_of (fst (last ser)) + 1)"
    using add_QuarterEnd_quarter_end [of "quarter_of (fst (last ser))"] qe by simp
  then have idx: "?idx = map (\<lambda>i. quarter_end (quarter_of (fst (last ser)) + 1 + int i)) [0..<steps]"
    by (simp add: date_range_Q_def quarter_of_quarter_end)
  have srt: "sorted_wrt date_less ?idx" by (rule sorted_date_range_Q)
  show ?thesis
    using fc len vals fsts idx srt by (intro exI [of _ ?fc]) (simp only: simp_thms)
qed


lemma two_quarters_cells:
  "strip ''Mar-17'' = ''Mar-17''" "strip ''Jun-17'' = ''Jun-17''"
  "strptime_b_y ''Mar-17'' = Some (Date 2017 3 1)" "strptime_b_y ''Jun-17'' = Some (Date 2017 6 1)"
  "finite_cell ''100'' = Some 100" "finite_cell ''110'' = Some 110"
  by code_simp+

lemma two_quarters_snap:
  "to_quarter_end (Date 2017 3 d) = Date 2017 3 31" "to_quarter_end (Date 2017 6 d) = Date 2017 6 30"
  by (simp_all add: to_quarter_end_def quarter_of_def quarter_end_def)

lemma load_two_quarters:
  "load_hpi_and_fit no_arima initial_state two_quarters (1, 1, 1) = (Inr True, two_quarters_state)"
  unfolding load_hpi_and_fit_def two_quarters_def
  by (simp add: date_column_def the_column_def hpi_column_def two_quarters_cells
      sort_by_date_def date_less_def two_quarters_snap no_arima_def initial_state_def
      two_quarters_state_def Let_def)

subsection \<open>Forecasting and loading\<close>

lemma two_quarters_state_fields:
  "hpi_series two_quarters_state = Some [(Date 2017 3 31, 100), (Date 2017 6 30, 110)]"
  "model_fit two_quarters_state = None"
  by (simp_all add: two_quarters_state_def)

text \<open>
  Witness for C7: the two-row table loaded without statsmodels, then three steps.
\<close>

theorem C7_degraded_forecast_witness:
  "load_hpi_and_fit no_arima initial_state two_quarters (1, 1, 1) = (Inr True, two_quarters_state)
   \<and> hpi_series two_quarters_state = Some [(Date 2017 3 31, 100), (Date 2017 6 30, 110)]
   \<and> model_fit two_quarters_state = None
   \<and> forecast_hpi two_quarters_state 3
       = Inr ([(Date 2017 9 30, 110), (Date 2017 12 31, 110), (Date 2018 3 31, 110)], None)"
proof -
  from C7_degraded_forecast [OF load_two_quarters two_quarters_state_fields(1) _
      two_quarters_state_fields(2), of 3]
  obtain fc where fc: "forecast_hpi two_quarters_state 3 = Inr (fc, None)"
    and len: "length fc = 3"
    and vals: "\<forall>p \<in> set fc. snd p = 110"
    and idx: "map fst fc = map (\<lambda>i. quarter_end (quarter_of (Date 2017 6 30) + 1 + int i)) [0..<3]"
    by auto
  have "[0..<3] = [0, 1, 2]" by (simp add: upt_rec)
  with idx have "map fst fc = [Date 2017 9 30, Date 2017 12 31, Date 2018 3 31]"
    by (simp add: quarter_of_def quarter_end_def)
  moreover from len obtain a b c where "fc = [a, b, c]"
    by (auto simp: length_Suc_conv numeral_3_eq_3)
  ultimately have "fc = [(Date 2017 9 30, 110), (Date 2017 12 31, 110), (Date 2018 3 31, 110)]"
    using vals by (auto simp: prod_eq_iff)
  with fc show ?thesis
    using load_two_quarters two_quarters_state_fields by simp
qed

lemma load_header_only:
  "load_hpi_and_fit ev st0 header_only ord =
     (Inr True, st0\<lparr>hpi_series := Some [],
                   model_fit := (if has_arima ev then arima_fit ev [] ord else None)\<rparr>)"
  unfolding load_hpi_and_fit_def header_only_def
  by (simp add: date_column_def the_column_def hpi_column_def sort_by_date_def Let_def)

lemma forecast_empty: "hpi_series st = Some [] \<Longrightarrow> forecast_hpi st steps = Inl IndexError"
  by (simp add: forecast_hpi_def split: option.splits sum.splits prod.splits)

text \<open>
  C6 (the code at the failing input).  A table with the columns \<open>Date\<close> and \<open>HPI\<close> and
  no rows loads successfully, as an empty series, whatever the fit does; every forecast
  request on the resulting state then raises \<open>IndexError\<close>.
\<close>

theorem C6_empty_series_raises_IndexError:
  "fst (load_hpi_and_fit ev st0 header_only ord) = Inr True
   \<and> forecast_hpi (snd (load_hpi_and_fit ev st0 header_only ord)) steps = Inl IndexError"
  by (simp add: load_header_only forecast_empty)

lemma forecast_not_loaded:
  "forecast_hpi st steps = Inl RuntimeError \<longleftrightarrow> hpi_series st = None"
  by (auto simp: forecast_hpi_def Let_def split: option.splits sum.splits prod.splits if_splits)

lemma load_failure_keeps_state:
  "load_hpi_and_fit ev st src ord = (Inl e, st') \<Longrightarrow> st' = st"
  by (auto simp: load_hpi_and_fit_def Let_def split: source.splits option.splits sum.splits if_splits)

lemma load_sets_series:
  "load_hpi_and_fit ev st src ord = (Inr b, st') \<Longrightarrow> hpi_series st' \<noteq> None"
  by (auto simp: load_hpi_and_fit_def Let_def split: source.splits option.splits sum.splits if_splits)

text \<open>
  C9.  A load that finds no file ends with \<open>FileNotFoundError\<close>, and one that finds
  no date column, or no value column, ends with \<open>KeyError\<close>; in each case, and for
  every other way the load can fail, both globals are exactly as they were before.
\<close>

theorem C9_failed_load_keeps_state:
  "load_hpi_and_fit ev st NoFile ord = (Inl FileNotFoundError, st)
   \<and> (date_column df = None \<longrightarrow> load_hpi_and_fit ev st (Table df) ord = (Inl KeyError, st))
   \<and> (\<forall>c. date_column df = Some c \<and> hpi_column (filter (\<lambda>(n, cells). n \<noteq> c) df) = Inl KeyError
          \<longrightarrow> load_hpi_and_fit ev st (Table df) ord = (Inl KeyError, st))
   \<and> (\<forall>e st'. load_hpi_and_fit ev st src ord = (Inl e, st') \<longrightarrow> st' = st)"
  using load_failure_keeps_state [of ev st src ord]
  by (auto simp: load_hpi_and_fit_def Let_def)

text \<open>
  Witness for C9: with a series already cached, a missing file, a table without a date
  column and a table without a numeric column.
\<close>

theorem C9_failed_load_witness:
  "load_hpi_and_fit no_arima two_quarters_state NoFile (1, 1, 1)
     = (Inl FileNotFoundError, two_quarters_state)
   \<and> date_column [(''Month'', [''Mar-17'']), (''HPI'', [''100''])] = None
   \<and> load_hpi_and_fit no_arima two_quarters_state
        (Table [(''Month'', [''Mar-17'']), (''HPI'', [''100''])]) (1, 1, 1)
     = (Inl KeyError, two_quarters_state)
   \<and> date_column [(''Date'', [''Mar-17'']), (''Region'', [''South''])] = Some ''Date''
   \<and> load_hpi_and_fit no_arima two_quarters_state
        (Table [(''Date'', [''Mar-17'']), (''Region'', [''South''])]) (1, 1, 1)
     = (Inl KeyError, two_quarters_state)"
proof -
  have a: "date_column [(''Month'', [''Mar-17'']), (''HPI'', [''100''])] = None"
    by (simp add: date_column_def)
  have b: "date_column [(''Date'', [''Mar-17'']), (''Region'', [''South''])] = Some ''Date''"
    by (simp add: date_column_def)
  have "finite_cell ''South'' = None" by code_simp
  then have c: "hpi_column (filter (\<lambda>(n, cells). n \<noteq> ''Date'')
      [(''Date'', [''Mar-17'']), (''Region'', [''South''])]) = Inl KeyError"
    by (simp add: hpi_column_def is_numeric_dtype_def)
  from C9_failed_load_keeps_state [of no_arima two_quarters_state "(1, 1, 1)"
      "[(''Month'', [''Mar-17'']), (''HPI'', [''100''])]"] a
    C9_failed_load_keeps_state [of no_arima two_quarters_state "(1, 1, 1)"
      "[(''Date'', [''Mar-17'']), (''Region'', [''South''])]"] b c
  show ?thesis by blast
qed

subsection \<open>The market summary\<close>

lemma forecast_two_quarters:
  "forecast_hpi two_quarters_state 4
     = Inr ([(Date 2017 9 30, 110), (Date 2017 12 31, 110), (Date 2018 3 31, 110),
             (Date 2018 6 30, 110)], None)"
proof -
  have "[0..<4] = [0, 1, 2, 3]" by (simp add: upt_rec)
  then have "date_range_Q (add_QuarterEnd (Date 2017 6 30)) 4
      = [Date 2017 9 30, Date 2017 12 31, Date 2018 3 31, Date 2018 6 30]"
    by (simp add: date_range_Q_def add_QuarterEnd_def quarter_of_def quarter_end_def)
  moreover have "replicate 4 (110::real) = [110, 110, 110, 110]"
    by (simp add: numeral_eq_Suc)
  ultimately show ?thesis
    using forecast_degraded [OF two_quarters_state_fields(1) _ two_quarters_state_fields(2), of 4]
    by simp
qed

lemma two_quarters_returns:
  "dropna (pct_change [100, 110]) = [Fin (1 / 10)]"
  by (simp add: dropna_def pct_change_def ratio_minus_1_def)

text \<open>
  C5 (the code at the failing input).  The two-row table loads to a series of two
  points, which has one quarter-over-quarter change.  The guard \<open>len(returns) > 0\<close>
  lets that single change through to \<open>std()\<close>, and the summary's volatility is NaN,
  not 0.0.
\<close>

theorem C5_two_points_volatility_is_NaN:
  "load_hpi_and_fit no_arima initial_state two_quarters (1, 1, 1) = (Inr True, two_quarters_state)
   \<and> get_market_forecast_summary two_quarters_state 4
       = (0, NaN, ''Moderate'',
          Some [(Date 2017 9 30, 110), (Date 2017 12 31, 110), (Date 2018 3 31, 110),
                (Date 2018 6 30, 110)])
   \<and> NaN \<noteq> Fin 0"
proof -
  have "get_market_forecast_summary two_quarters_state 4
       = (0, NaN, ''Moderate'',
          Some [(Date 2017 9 30, 110), (Date 2017 12 31, 110), (Date 2018 3 31, 110),
                (Date 2018 6 30, 110)])"
    by (simp add: get_market_forecast_summary_def summary_try_def
        two_quarters_state_fields forecast_two_quarters two_quarters_returns std_def)
  with load_two_quarters show ?thesis by simp
qed

lemma volatility_of_summary:
  assumes "hpi_series st = Some ser"
      and "get_market_forecast_summary st steps = (g, vol, risk, Some fc)"
  shows "vol = (if dropna (pct_change (map snd ser)) = [] then Fin 0
                else std (dropna (pct_change (map snd ser))))"
  using assms
  by (auto simp: get_market_forecast_summary_def summary_try_def safe_default_def Let_def
      split: sum.splits prod.splits if_splits)

lemma std_finite: "2 \<le> length ys \<Longrightarrow> std (map Fin ys) = Fin (sample_std ys)"
proof -
  have "finite_part (map Fin ys) = Some ys" by (induction ys) auto
  then show "2 \<le> length ys \<Longrightarrow> std (map Fin ys) = Fin (sample_std ys)"
    by (simp add: std_def)
qed

lemma pct_change_single: "dropna (pct_change [x]) = []"
  by (simp add: dropna_def pct_change_def)

text \<open>
  C8.  \<open>get_market_forecast_summary\<close> returns the safe default (growth rate 0.0,
  volatility 0.0, label \<open>Moderate\<close>, no forecast) when no series is loaded, and also
  whenever anything inside its \<open>try\<close> block raises.  It has no other way to fail: its
  result is always a summary.
\<close>

theorem C8_summary_safe_default:
  "(hpi_series st = None \<longrightarrow> get_market_forecast_summary st steps = safe_default)
   \<and> (\<forall>ser e. hpi_series st = Some ser \<and> summary_try st ser steps = Inl e
         \<longrightarrow> get_market_forecast_summary st steps = safe_default)
   \<and> safe_default = (0, Fin 0, ''Moderate'', None)"
  by (simp add: get_market_forecast_summary_def safe_default_def)

text \<open>
  Witness for C8: the initial state, and the state after loading a table without rows,
  where the forecast raises \<open>IndexError\<close> inside the \<open>try\<close> block.
\<close>

theorem C8_summary_safe_default_witness:
  "hpi_series initial_state = None
   \<and> get_market_forecast_summary initial_state 4 = (0, Fin 0, ''Moderate'', None)
   \<and> hpi_series (snd (load_hpi_and_fit no_arima initial_state header_only (1, 1, 1))) = Some []
   \<and> summary_try (snd (load_hpi_and_fit no_arima initial_state header_only (1, 1, 1))) [] 4
       = Inl IndexError
   \<and> get_market_forecast_summary (snd (load_hpi_and_fit no_arima initial_state header_only (1, 1, 1))) 4
       = (0, Fin 0, ''Moderate'', None)"
proof -
  let ?st = "snd (load_hpi_and_fit no_arima initial_state header_only (1, 1, 1))"
  have a: "hpi_series initial_state = None" by (simp add: initial_state_def)
  have b: "hpi_series ?st = Some []" by (simp add: load_header_only)
  have c: "summary_try ?st [] 4 = Inl IndexError"
    unfolding summary_try_def by (simp only: forecast_empty [OF b] sum.case)
  from C8_summary_safe_default [of initial_state 4] C8_summary_safe_default [of ?st 4] a b c
  show ?thesis by simp
qed

end
